theory Spec2Isabelle
  imports Complex_Main "HOL-Library.Word"
begin

section \<open>The value model of \<^verbatim>\<open>main.go\<close>\<close>

text \<open>
  The calculator keeps one stack of cells of type \<^verbatim>\<open>Var\<close>.  A cell has a tag
  (\<^verbatim>\<open>Type\<close>), a name \<^verbatim>\<open>V\<close>, a pointer \<^verbatim>\<open>F\<close> to a \<^verbatim>\<open>big.Float\<close>, a byte string
  \<^verbatim>\<open>B\<close> and a captured body \<^verbatim>\<open>Code\<close>.  The pointer matters: \<^verbatim>\<open>dup\<close>, variable
  lookup and the comparison operators copy pointers, and \<^verbatim>\<open>!\<close>, \<^verbatim>\<open>++\<close> and \<^verbatim>\<open>--\<close>
  write through them.  So a cell holds an address (\<open>None\<close> is Go's \<^verbatim>\<open>nil\<close>) and the
  numbers live in a heap, a list indexed by address.
\<close>

datatype Type = Number | Variable | String | Assignment | Code

datatype Var = Var (Type_f: Type) (V_f: string) (F_f: "nat option")
  (B_f: "8 word list") (Code_f: "Var list")

definition zeroVar :: Var where
  \<comment> \<open>Go's zero value \<^verbatim>\<open>Var{}\<close>: tag 0 is \<^verbatim>\<open>Number\<close>, every other field empty or nil.\<close>
  "zeroVar = Var Number [] None [] []"

definition set_Type :: "Type \<Rightarrow> Var \<Rightarrow> Var" where
  "set_Type t c = Var t (V_f c) (F_f c) (B_f c) (Code_f c)"

definition set_V :: "string \<Rightarrow> Var \<Rightarrow> Var" where
  "set_V v c = Var (Type_f c) v (F_f c) (B_f c) (Code_f c)"

definition set_F :: "nat option \<Rightarrow> Var \<Rightarrow> Var" where
  "set_F p c = Var (Type_f c) (V_f c) p (B_f c) (Code_f c)"

definition set_B :: "8 word list \<Rightarrow> Var \<Rightarrow> Var" where
  "set_B b c = Var (Type_f c) (V_f c) (F_f c) b (Code_f c)"

definition set_Code :: "Var list \<Rightarrow> Var \<Rightarrow> Var" where
  "set_Code b c = Var (Type_f c) (V_f c) (F_f c) (B_f c) b"

section \<open>The numbers: \<^verbatim>\<open>big.Float\<close> at precision 53\<close>

text \<open>
  Every \<^verbatim>\<open>big.Float\<close> of the program is made by \<^verbatim>\<open>big.NewFloat\<close>, which fixes the
  precision at 53 bits and the rounding mode at round-to-nearest-even, or is the receiver
  of an operation on such a number.  A \<^verbatim>\<open>big.Float\<close> is a signed zero, a signed
  infinity, or a sign with a non-zero magnitude \<open>0.mant * 2 ^ exp\<close> whose exponent lies
  between \<^verbatim>\<open>MinExp\<close> and \<^verbatim>\<open>MaxExp\<close>.  \<open>Finite neg m\<close> is the number of sign \<open>neg\<close> and
  magnitude \<open>m \<ge> 0\<close>; \<open>Infinite neg\<close> is the infinity of that sign.
\<close>

datatype bigfloat = Finite bool rat | Infinite bool

definition MaxExp :: int where "MaxExp = 2147483647"
definition MinExp :: int where "MinExp = - 2147483648"

function bit_length :: "int \<Rightarrow> nat" where
  "bit_length n = (if n \<le> 0 then 0 else Suc (bit_length (n div 2)))"
  by pat_completeness auto
termination
  by (relation "measure nat") auto

declare bit_length.simps [simp del]

definition pow2 :: "int \<Rightarrow> rat" where
  "pow2 d = (if 0 \<le> d then 2 ^ nat d else 1 / 2 ^ nat (- d))"

definition fl_exp :: "rat \<Rightarrow> int" where
  \<comment> \<open>the exponent \<open>e\<close> of a positive magnitude: \<open>2 ^ (e - 1) \<le> m < 2 ^ e\<close>\<close>
  "fl_exp m = (case quotient_of m of (p, q) \<Rightarrow>
     let d = int (bit_length p) - int (bit_length q)
     in if pow2 d \<le> m then d + 1 else d)"

definition round_half_even :: "rat \<Rightarrow> int" where
  "round_half_even q = (let f = \<lfloor>q\<rfloor>; r = q - of_int f in
     if r < 1 / 2 then f else if 1 / 2 < r then f + 1
     else if even f then f else f + 1)"

definition fl_round :: "bool \<Rightarrow> rat \<Rightarrow> bigfloat" where
  \<comment> \<open>\<^verbatim>\<open>setExpAndRound\<close> at precision 53 on a positive magnitude: underflow gives a zero,
      overflow an infinity, otherwise the mantissa is rounded to 53 bits\<close>
  "fl_round neg m = (let e = fl_exp m in
     if e < MinExp then Finite neg 0
     else if MaxExp < e then Infinite neg
     else let ulp = pow2 (e - 53); M = round_half_even (m / ulp) in
       if M = 2 ^ 53 \<and> MaxExp \<le> e then Infinite neg else Finite neg (of_int M * ulp))"

definition fl_rat :: "rat \<Rightarrow> bigfloat" where
  \<comment> \<open>an exact value rounded into a precision-53 receiver; an exact zero is \<open>+0\<close>\<close>
  "fl_rat v = (if v = 0 then Finite False 0 else fl_round (v < 0) \<bar>v\<bar>)"

definition signed :: "bool \<Rightarrow> rat \<Rightarrow> rat" where
  "signed neg m = (if neg then - m else m)"

definition fl_set :: "bigfloat \<Rightarrow> bigfloat" where
  \<comment> \<open>\<^verbatim>\<open>z.Set(x)\<close> into a precision-53 receiver\<close>
  "fl_set x = (case x of
       Finite n m \<Rightarrow> if m = 0 then Finite n 0 else fl_round n m
     | Infinite n \<Rightarrow> Infinite n)"

definition fl_flip :: "bigfloat \<Rightarrow> bigfloat" where
  "fl_flip x = (case x of Finite n m \<Rightarrow> Finite (\<not> n) m | Infinite n \<Rightarrow> Infinite (\<not> n))"

text \<open>
  The four operations return \<open>None\<close> where \<^verbatim>\<open>math/big\<close> panics with \<^verbatim>\<open>ErrNaN\<close>.
\<close>

definition fl_add :: "bigfloat \<Rightarrow> bigfloat \<Rightarrow> bigfloat option" where
  "fl_add x y = (case (x, y) of
       (Finite nx mx, Finite ny my) \<Rightarrow>
         if mx \<noteq> 0 \<and> my \<noteq> 0 then Some (fl_rat (signed nx mx + signed ny my))
         else if mx = 0 \<and> my = 0 then Some (Finite (nx \<and> ny) 0)
         else if my = 0 then Some (fl_set x)
         else Some (fl_set y)
     | (Infinite nx, Infinite ny) \<Rightarrow> if nx \<noteq> ny then None else Some (Infinite nx)
     | (Infinite nx, Finite ny my) \<Rightarrow> Some (Infinite nx)
     | (Finite nx mx, Infinite ny) \<Rightarrow> Some (Infinite ny))"

definition fl_sub :: "bigfloat \<Rightarrow> bigfloat \<Rightarrow> bigfloat option" where
  "fl_sub x y = (case (x, y) of
       (Finite nx mx, Finite ny my) \<Rightarrow>
         if mx \<noteq> 0 \<and> my \<noteq> 0 then Some (fl_rat (signed nx mx - signed ny my))
         else if mx = 0 \<and> my = 0 then Some (Finite (nx \<and> \<not> ny) 0)
         else if my = 0 then Some (fl_set x)
         else Some (fl_flip (fl_set y))
     | (Infinite nx, Infinite ny) \<Rightarrow> if nx = ny then None else Some (Infinite nx)
     | (Infinite nx, Finite ny my) \<Rightarrow> Some (Infinite nx)
     | (Finite nx mx, Infinite ny) \<Rightarrow> Some (Infinite (\<not> ny)))"

definition fl_mul :: "bigfloat \<Rightarrow> bigfloat \<Rightarrow> bigfloat option" where
  "fl_mul x y = (case (x, y) of
       (Finite nx mx, Finite ny my) \<Rightarrow>
         if mx \<noteq> 0 \<and> my \<noteq> 0 then Some (fl_round (nx \<noteq> ny) (mx * my))
         else Some (Finite (nx \<noteq> ny) 0)
     | (Infinite nx, Infinite ny) \<Rightarrow> Some (Infinite (nx \<noteq> ny))
     | (Infinite nx, Finite ny my) \<Rightarrow> if my = 0 then None else Some (Infinite (nx \<noteq> ny))
     | (Finite nx mx, Infinite ny) \<Rightarrow> if mx = 0 then None else Some (Infinite (nx \<noteq> ny)))"

definition fl_quo :: "bigfloat \<Rightarrow> bigfloat \<Rightarrow> bigfloat option" where
  "fl_quo x y = (case (x, y) of
       (Finite nx mx, Finite ny my) \<Rightarrow>
         if mx \<noteq> 0 \<and> my \<noteq> 0 then Some (fl_round (nx \<noteq> ny) (mx / my))
         else if mx = 0 \<and> my = 0 then None
         else if mx = 0 then Some (Finite (nx \<noteq> ny) 0)
         else Some (Infinite (nx \<noteq> ny))
     | (Infinite nx, Infinite ny) \<Rightarrow> None
     | (Infinite nx, Finite ny my) \<Rightarrow> Some (Infinite (nx \<noteq> ny))
     | (Finite nx mx, Infinite ny) \<Rightarrow> Some (Finite (nx \<noteq> ny) 0))"

definition fl_ord :: "bigfloat \<Rightarrow> int" where
  "fl_ord x = (case x of
       Finite n m \<Rightarrow> if m = 0 then 0 else if n then - 1 else 1
     | Infinite n \<Rightarrow> if n then - 2 else 2)"

definition fl_ucmp :: "bigfloat \<Rightarrow> bigfloat \<Rightarrow> int" where
  "fl_ucmp x y = (case (x, y) of
       (Finite nx mx, Finite ny my) \<Rightarrow> if mx < my then - 1 else if my < mx then 1 else 0
     | _ \<Rightarrow> 0)"

definition fl_cmp :: "bigfloat \<Rightarrow> bigfloat \<Rightarrow> int" where
  \<comment> \<open>\<^verbatim>\<open>x.Cmp(y)\<close>: \<open>-1\<close>, \<open>0\<close> or \<open>1\<close>\<close>
  "fl_cmp x y = (let mx = fl_ord x; my = fl_ord y in
     if mx < my then - 1 else if my < mx then 1
     else if mx = - 1 then fl_ucmp y x
     else if mx = 1 then fl_ucmp x y else 0)"

definition fl_Int :: "bigfloat \<Rightarrow> int option" where
  \<comment> \<open>\<^verbatim>\<open>x.Int(nil)\<close>: truncation towards zero; \<^verbatim>\<open>nil\<close> for an infinity\<close>
  "fl_Int x = (case x of
       Finite n m \<Rightarrow> Some (if n then - \<lfloor>m\<rfloor> else \<lfloor>m\<rfloor>)
     | Infinite n \<Rightarrow> None)"

definition fl_Int64 :: "bigfloat \<Rightarrow> int" where
  \<comment> \<open>\<^verbatim>\<open>x.Int64()\<close>: truncation towards zero, saturating\<close>
  "fl_Int64 x = (case x of
       Finite n m \<Rightarrow>
         if \<lfloor>m\<rfloor> < 2 ^ 63 then (if n then - \<lfloor>m\<rfloor> else \<lfloor>m\<rfloor>)
         else if n then - (2 ^ 63) else 2 ^ 63 - 1
     | Infinite n \<Rightarrow> if n then - (2 ^ 63) else 2 ^ 63 - 1)"

definition fl_Uint64 :: "bigfloat \<Rightarrow> int" where
  \<comment> \<open>\<^verbatim>\<open>x.Uint64()\<close>: 0 for a negative number, truncation, saturating\<close>
  "fl_Uint64 x = (case x of
       Finite n m \<Rightarrow>
         if n then 0 else if \<lfloor>m\<rfloor> < 2 ^ 64 then \<lfloor>m\<rfloor> else 2 ^ 64 - 1
     | Infinite n \<Rightarrow> if n then 0 else 2 ^ 64 - 1)"

definition wrap64 :: "int \<Rightarrow> int" where
  \<comment> \<open>two's-complement wrap-around of Go's 64-bit \<^verbatim>\<open>int\<close>\<close>
  "wrap64 x = (x + 2 ^ 63) mod 2 ^ 64 - 2 ^ 63"

definition trunc_rem :: "int \<Rightarrow> int \<Rightarrow> int" where
  \<comment> \<open>Go's \<^verbatim>\<open>%\<close> and \<^verbatim>\<open>big.Int.Rem\<close>: the remainder of the truncated division\<close>
  "trunc_rem a b = sgn a * (\<bar>a\<bar> mod \<bar>b\<bar>)"

section \<open>Session state and the standard library\<close>

text \<open>
  The globals of the program and the arguments of \<^verbatim>\<open>Eval\<close> form one state.  The
  variable table is a Go map, \<open>None\<close> being the \<^verbatim>\<open>nil\<close> map: reading it finds nothing,
  writing it panics.  The globals \<^verbatim>\<open>Zero\<close> and \<^verbatim>\<open>One\<close> are the addresses 0 and 1 of the
  heap.  \<open>registered\<close> holds the entries that \<^verbatim>\<open>macro\<close> adds to \<^verbatim>\<open>keyWords\<close>; nothing
  ever deletes an entry.  \<open>out\<close> collects the messages the program prints whatever the
  debug flag; the traces printed under \<^verbatim>\<open>if debug\<close> are not recorded, only the stack
  reads they make.
\<close>

datatype msg = NoSuchVariable | TogglingDebug | Usage | RecoveredIn Var

record state =
  stack :: "Var list"
  vars :: "(string \<rightharpoonup> Var) option"
  heap :: "bigfloat list"
  registered :: "string \<rightharpoonup> string"
  debug :: bool
  Mode :: string
  Vertical :: bool
  Exit :: bool
  nrand :: nat
  out :: "msg list"

definition Zero_p :: nat where "Zero_p = 0"
definition One_p :: nat where "One_p = 1"

text \<open>
  What the program takes from Go's standard library and this development does not
  compute is a parameter: whether \<^verbatim>\<open>fmt.Sscanf\<close> reads the token with \<^verbatim>\<open>%f\<close> and with
  \<^verbatim>\<open>%i\<close>, the result of \<^verbatim>\<open>big.Float.Parse\<close> (\<open>None\<close> is an error), the 64-bit
  floating-point routines of \<^verbatim>\<open>math\<close> applied to the narrowed operands and boxed again
  (\<open>None\<close> where the result is a NaN, on which \<^verbatim>\<open>big.NewFloat\<close> panics), and the
  sequence of random numbers.
\<close>

record golib =
  sscanf_f :: "string \<Rightarrow> bool"
  sscanf_i :: "string \<Rightarrow> bool"
  parse_float :: "string \<Rightarrow> int \<Rightarrow> bigfloat option"
  math1 :: "string \<Rightarrow> bigfloat \<Rightarrow> bigfloat option"
  math2 :: "bigfloat \<Rightarrow> bigfloat \<Rightarrow> bigfloat option"
  math_const :: "string \<Rightarrow> bigfloat"
  rand_float :: "nat \<Rightarrow> bigfloat"

definition keyWords :: "(string \<times> string) list" where
  "keyWords =
    [(''+'', ''x''), (''-'', ''x''), (''*'', ''x''), (''/'', ''x''),
     (''cla'', ''x''), (''clr'', ''x''), (''clv'', ''x''), (''!'', ''x''),
     (''%'', ''x''), (''++'', ''x''), (''--'', ''x''),
     (''&'', ''x''), (''|'', ''x''), (''^'', ''x''), (''~'', ''x''),
     (''<<'', ''x''), (''>>'', ''x''),
     (''&&'', ''x''), (''||'', ''x''), (''^^'', ''x''),
     (''!='', ''x''), (''<'', ''x''), (''<='', ''x''), (''=='', ''x''),
     (''>'', ''x''), (''>='', ''x''),
     (''acos'', ''x''), (''asin'', ''x''), (''atan'', ''x''), (''cos'', ''x''),
     (''cosh'', ''x''), (''sin'', ''x''), (''sinh'', ''x''), (''tanh'', ''x''),
     (''ceil'', ''x''), (''floor'', ''x''), (''round'', ''x''), (''ip'', ''x''),
     (''fp'', ''x''), (''sign'', ''x''), (''abs'', ''x''), (''max'', ''x''),
     (''min'', ''x''),
     (''hex'', ''x''), (''dec'', ''x''), (''bin'', ''x''), (''oct'', ''x''),
     (''e'', ''c''), (''pi'', ''c''), (''rand'', ''c''),
     (''exp'', ''x''), (''fact'', ''x''), (''sqrt'', ''x''), (''ln'', ''x''),
     (''log'', ''x''), (''pow'', ''x''),
     (''hnl'', ''x''), (''hns'', ''x''), (''nhl'', ''x''), (''nhs'', ''x''),
     (''pick'', ''x''), (''repeat'', ''x''), (''depth'', ''x''), (''drop'', ''x''),
     (''dropn'', ''x''), (''dup'', ''x''), (''dupn'', ''x''), (''roll'', ''x''),
     (''rolld'', ''x''), (''stack'', ''x''), (''swap'', ''x''),
     (''macro'', ''m''), (''='', ''a''),
     (''help'', ''x''), (''exit'', ''x''), (''debug'', ''x'')]"

definition isKeyword :: "state \<Rightarrow> string \<Rightarrow> bool" where
  "isKeyword st s = (\<not> (map_of keyWords s = None \<and> registered st s = None))"

section \<open>The classifier: \<^verbatim>\<open>getBase\<close> and \<^verbatim>\<open>Parse\<close>\<close>

definition getBase :: "golib \<Rightarrow> string \<Rightarrow> int" where
  \<comment> \<open>the first test compares the first byte with the number 0, not with the digit\<close>
  "getBase lib s =
    (if length s = 0 then - 1
     else if s ! 0 = CHR 0x00 \<and> 3 < length s \<and> s ! 1 = CHR ''x'' then 16
     else if s ! 0 = CHR 0x00 \<and> 3 < length s \<and> s ! 1 = CHR ''d'' then 10
     else if s ! 0 = CHR 0x00 \<and> 3 < length s \<and> s ! 1 = CHR ''o'' then 8
     else if s ! 0 = CHR 0x00 \<and> 3 < length s \<and> s ! 1 = CHR ''b'' then 2
     else if \<not> sscanf_f lib s \<and> \<not> sscanf_i lib s then 0
     else 10)"

text \<open>
  \<^verbatim>\<open>Parse\<close> builds a new stack and a new variable table from the tokens of one line.
  The table is kept as the list of its insertions, in order.  Each numeric token
  allocates a number (\<^verbatim>\<open>big.NewFloat(0)\<close>, the receiver of \<^verbatim>\<open>Parse\<close>); the cell is
  appended only when the library parses the whole token.  The slice \<^verbatim>\<open>lex[i][:len(lex[i])-1]\<close>
  is the token without its last byte.
\<close>

definition Parse_token ::
  "golib \<Rightarrow> state \<Rightarrow> Var list \<times> (string \<times> Var) list \<times> bigfloat list \<Rightarrow> string
     \<Rightarrow> Var list \<times> (string \<times> Var) list \<times> bigfloat list" where
  "Parse_token lib st acc tok = (case acc of (stk, vs, hp) \<Rightarrow>
     let base = getBase lib tok in
     if base = 0 then
       if butlast tok = ''='' then
         (stk @ [Var Assignment (butlast tok) (Some Zero_p) [] []],
          vs @ [(butlast tok, Var Code ''='' (Some Zero_p) [] [])], hp)
       else if isKeyword st tok then
         (stk @ [Var Code tok (Some Zero_p) [] []], vs, hp)
       else (stk @ [Var Variable tok (Some Zero_p) [] []], vs, hp)
     else
       (case parse_float lib tok base of
          None \<Rightarrow> (stk, vs, hp @ [Finite False 0])
        | Some f \<Rightarrow> (stk @ [Var Number [] (Some (length hp)) [] []], vs, hp @ [f])))"

definition Parse ::
  "golib \<Rightarrow> state \<Rightarrow> string list \<Rightarrow> Var list \<times> (string \<times> Var) list \<times> bigfloat list" where
  "Parse lib st lexemes = foldl (Parse_token lib st) ([], [], heap st) lexemes"

section \<open>Slices\<close>

text \<open>
  A stack read outside \<open>0 \<le> k < len\<close> panics.  The results of one cell's reduction
  are: the new state and cursor, a panic, the fatal exit of \<^verbatim>\<open>log.Fatal\<close>, or
  \<open>CapDependent\<close> where the outcome depends on the capacity of the slice's backing
  array, which this development does not track (a slice expression reaching beyond the
  length, or an \<^verbatim>\<open>append\<close> that overwrites, when it happens in place, cells still to be
  copied).
\<close>

datatype 'a result = Ok 'a | Panic | Fatal string | CapDependent

definition idx :: "'a list \<Rightarrow> int \<Rightarrow> 'a option" where
  "idx xs k = (if 0 \<le> k \<and> k < int (length xs) then Some (xs ! nat k) else None)"

definition remove :: "Var list \<Rightarrow> int \<Rightarrow> int \<Rightarrow> Var list result" where
  \<comment> \<open>\<^verbatim>\<open>append(stack[:pos-removeN], stack[pos:]...)\<close>\<close>
  "remove s pos removeN = (let k = pos - removeN in
     if k < 0 \<or> pos < 0 \<or> int (length s) < pos then Panic
     else if k \<le> int (length s) then Ok (take (nat k) s @ drop (nat pos) s)
     else CapDependent)"

definition splice :: "Var list \<Rightarrow> nat \<Rightarrow> Var list \<Rightarrow> nat \<Rightarrow> Var list result" where
  \<comment> \<open>\<^verbatim>\<open>rest := s[r:]; s = append(s[:k], xs...); s = append(s, rest...)\<close> for \<open>k \<le> r\<close>,
      \<open>xs\<close> not sharing storage with \<open>s[k:]\<close>: the first \<^verbatim>\<open>append\<close> writes in place
      when it fits the capacity, and then \<open>rest\<close> is read after it was overwritten\<close>
  "splice s k xs r =
    (if k + length xs \<le> r \<or> length s \<le> r then Ok (take k s @ xs @ drop r s)
     else if k + length xs \<le> length s
       then Ok (take k s @ xs @ drop r (take k s @ xs @ drop (k + length xs) s))
     else CapDependent)"

definition deref :: "state \<Rightarrow> nat option \<Rightarrow> bigfloat option" where
  "deref st p = (case p of None \<Rightarrow> None
     | Some a \<Rightarrow> if a < length (heap st) then Some (heap st ! a) else None)"

definition operand :: "state \<Rightarrow> int \<Rightarrow> bigfloat option" where
  \<comment> \<open>the number behind \<^verbatim>\<open>stack[k].F\<close>; \<open>None\<close> is a panic (index out of range, or
      a method called on a \<^verbatim>\<open>nil\<close> pointer)\<close>
  "operand st k = (case idx (stack st) k of None \<Rightarrow> None | Some c \<Rightarrow> deref st (F_f c))"

definition cell_upd :: "state \<Rightarrow> int \<Rightarrow> (Var \<Rightarrow> Var) \<Rightarrow> state" where
  "cell_upd st k f = st\<lparr>stack := (stack st)[nat k := f (stack st ! nat k)]\<rparr>"

definition store :: "state \<Rightarrow> nat \<Rightarrow> bigfloat \<Rightarrow> state" where
  "store st p v = st\<lparr>heap := (heap st)[p := v]\<rparr>"

definition NewFloat :: "state \<Rightarrow> bigfloat \<Rightarrow> state" where
  \<comment> \<open>the new number gets the address \<open>length (heap st)\<close>\<close>
  "NewFloat st v = st\<lparr>heap := heap st @ [v]\<rparr>"

definition with_stack :: "state \<Rightarrow> int \<Rightarrow> Var list result \<Rightarrow> (state \<times> int) result" where
  "with_stack st k r = (case r of
       Ok s \<Rightarrow> Ok (st\<lparr>stack := s\<rparr>, k)
     | Panic \<Rightarrow> Panic | Fatal m \<Rightarrow> Fatal m | CapDependent \<Rightarrow> CapDependent)"

definition vlookup :: "(string \<rightharpoonup> Var) option \<Rightarrow> string \<Rightarrow> Var option" where
  "vlookup vs k = (case vs of None \<Rightarrow> None | Some m \<Rightarrow> m k)"

section \<open>The operators of \<^verbatim>\<open>Eval\<close>\<close>

text \<open>
  Each definition below is one \<^verbatim>\<open>case\<close> of the \<^verbatim>\<open>switch\<close> (or a family of cases with the
  same text), applied to the state in which \<^verbatim>\<open>stack[i].F = big.NewFloat(0)\<close> has already
  run: \<open>p\<close> is the address of that new number.  The result is the state and the value of
  \<^verbatim>\<open>i\<close> at the end of the loop body, before \<^verbatim>\<open>i++\<close>.  Memory is unbounded here: a
  \<^verbatim>\<open>make\<close> or a shift that exhausts it in Go succeeds.
\<close>

unbundle bit_operations_syntax

definition arith :: "string \<Rightarrow> bigfloat \<Rightarrow> bigfloat \<Rightarrow> bigfloat option" where
  "arith w = (if w = ''+'' then fl_add else if w = ''-'' then fl_sub
     else if w = ''*'' then fl_mul else fl_quo)"

definition int_arith :: "string \<Rightarrow> bigfloat \<Rightarrow> bigfloat \<Rightarrow> bigfloat option" where
  \<comment> \<open>\<^verbatim>\<open>%\<close>, \<^verbatim>\<open>&\<close>, \<^verbatim>\<open>|\<close>, \<^verbatim>\<open>^\<close>, \<^verbatim>\<open><<\<close>, \<^verbatim>\<open>>>\<close>: the operands narrowed to integers, the
      result set into the new number by \<^verbatim>\<open>SetInt\<close>; a \<^verbatim>\<open>nil\<close> integer and a zero divisor panic\<close>
  "int_arith w x y = (case fl_Int x of None \<Rightarrow> None | Some a \<Rightarrow>
     if w = ''<<'' then Some (fl_rat (of_int (push_bit (nat (fl_Uint64 y)) a)))
     else if w = ''>>'' then Some (fl_rat (of_int (drop_bit (nat (fl_Uint64 y)) a)))
     else (case fl_Int y of None \<Rightarrow> None | Some b \<Rightarrow>
       if w = ''%'' then (if b = 0 then None else Some (fl_rat (of_int (trunc_rem a b))))
       else if w = ''&'' then Some (fl_rat (of_int (a AND b)))
       else if w = ''|'' then Some (fl_rat (of_int (a OR b)))
       else Some (fl_rat (of_int (a XOR b)))))"

definition op_binary ::
  "(bigfloat \<Rightarrow> bigfloat \<Rightarrow> bigfloat option) \<Rightarrow> state \<Rightarrow> int \<Rightarrow> nat \<Rightarrow> (state \<times> int) result" where
  \<comment> \<open>\<^verbatim>\<open>stack[i].F.Op(stack[i-2].F, stack[i-1].F); stack[i].Type = Number;
      stack = remove(stack, i, 2); i -= 2\<close>\<close>
  "op_binary f st i p = (case operand st (i - 2) of None \<Rightarrow> Panic | Some x \<Rightarrow>
     (case operand st (i - 1) of None \<Rightarrow> Panic | Some y \<Rightarrow>
       (case f x y of None \<Rightarrow> Panic | Some r \<Rightarrow>
          let st1 = cell_upd (store st p r) i (set_Type Number)
          in with_stack st1 (i - 2) (remove (stack st1) i 2))))"

definition op_inplace ::
  "(bigfloat \<Rightarrow> bigfloat option) \<Rightarrow> state \<Rightarrow> int \<Rightarrow> (state \<times> int) result" where
  \<comment> \<open>\<^verbatim>\<open>!\<close>, \<^verbatim>\<open>++\<close>, \<^verbatim>\<open>--\<close>: the number behind \<^verbatim>\<open>stack[i-1].F\<close> is overwritten where it
      lies, so every cell and variable holding the same pointer changes with it\<close>
  "op_inplace f st i = (case idx (stack st) (i - 1) of None \<Rightarrow> Panic | Some c \<Rightarrow>
     (case F_f c of None \<Rightarrow> Panic | Some a \<Rightarrow>
       (case deref st (Some a) of None \<Rightarrow> Panic | Some x \<Rightarrow>
         (case f x of None \<Rightarrow> Panic | Some r \<Rightarrow>
            let st1 = store st a r
            in with_stack st1 (i - 1) (remove (stack st1) (i + 1) 1)))))"

definition op_not :: "state \<Rightarrow> int \<Rightarrow> nat \<Rightarrow> (state \<times> int) result" where
  \<comment> \<open>\<^verbatim>\<open>~\<close> reads \<^verbatim>\<open>stack[i-2]\<close> and removes \<^verbatim>\<open>stack[i-1]\<close>\<close>
  "op_not st i p = (case operand st (i - 2) of None \<Rightarrow> Panic | Some x \<Rightarrow>
     (case fl_Int x of None \<Rightarrow> Panic | Some a \<Rightarrow>
        let st1 = cell_upd (store st p (fl_rat (of_int (NOT a)))) i (set_Type Number)
        in with_stack st1 (i - 1) (remove (stack st1) i 1)))"

definition cmp_table :: "string \<Rightarrow> int \<Rightarrow> nat" where
  \<comment> \<open>the inner \<^verbatim>\<open>switch\<close> of each comparison, on the result \<open>-1\<close>, \<open>0\<close> or \<open>1\<close> of \<^verbatim>\<open>Cmp\<close>\<close>
  "cmp_table w c =
    (if w = ''!='' then (if c = 0 then Zero_p else One_p)
     else if w = ''=='' then (if c = 0 then One_p else Zero_p)
     else if w = ''<'' then (if c = - 1 then One_p else Zero_p)
     else if w = ''<='' then (if c = 1 then Zero_p else One_p)
     else if w = ''>'' then (if c = 1 then One_p else Zero_p)
     else (if c = - 1 then Zero_p else One_p))"

definition op_compare :: "string \<Rightarrow> state \<Rightarrow> int \<Rightarrow> (state \<times> int) result" where
  \<comment> \<open>\<^verbatim>\<open>switch stack[i-1].F.Cmp(stack[i-2].F)\<close>: the receiver is the cell nearest to the
      operator; the result cell takes the pointer \<^verbatim>\<open>One\<close> or \<^verbatim>\<open>Zero\<close> itself\<close>
  "op_compare w st i = (case operand st (i - 1) of None \<Rightarrow> Panic | Some x \<Rightarrow>
     (case operand st (i - 2) of None \<Rightarrow> Panic | Some y \<Rightarrow>
        let st1 = cell_upd st i (\<lambda>c. set_Type Number (set_F (Some (cmp_table w (fl_cmp x y))) c))
        in with_stack st1 (i - 2) (remove (stack st1) i 2)))"

definition bool_table :: "string \<Rightarrow> bool \<Rightarrow> bool \<Rightarrow> bool" where
  "bool_table w a b = (if w = ''&&'' then a \<and> b else if w = ''||'' then a \<or> b
     else (\<not> a \<and> b) \<or> (a \<and> \<not> b))"

definition op_bool :: "string \<Rightarrow> state \<Rightarrow> int \<Rightarrow> (state \<times> int) result" where
  "op_bool w st i = (case operand st (i - 2) of None \<Rightarrow> Panic | Some x \<Rightarrow>
     (case operand st (i - 1) of None \<Rightarrow> Panic | Some y \<Rightarrow>
        let r = (if bool_table w (fl_Uint64 x \<noteq> 0) (fl_Uint64 y \<noteq> 0) then One_p else Zero_p);
            st1 = cell_upd st i (\<lambda>c. set_Type Number (set_F (Some r) c))
        in with_stack st1 (i - 2) (remove (stack st1) i 2)))"

definition boxed :: "state \<Rightarrow> int \<Rightarrow> bigfloat \<Rightarrow> state" where
  \<comment> \<open>\<^verbatim>\<open>stack[i].F = big.NewFloat(v); stack[i].Type = Number\<close>\<close>
  "boxed st i v = cell_upd (NewFloat st v) i
     (\<lambda>c. set_Type Number (set_F (Some (length (heap st))) c))"

definition op_math1 :: "golib \<Rightarrow> string \<Rightarrow> state \<Rightarrow> int \<Rightarrow> (state \<times> int) result" where
  "op_math1 lib w st i = (case operand st (i - 1) of None \<Rightarrow> Panic | Some x \<Rightarrow>
     (case math1 lib w x of None \<Rightarrow> Panic | Some r \<Rightarrow>
        let st1 = boxed st i r in with_stack st1 (i - 1) (remove (stack st1) i 1)))"

definition op_math2 :: "golib \<Rightarrow> state \<Rightarrow> int \<Rightarrow> (state \<times> int) result" where
  \<comment> \<open>\<^verbatim>\<open>pow\<close>, \<^verbatim>\<open>**\<close> and \<^verbatim>\<open>exp\<close> are all \<^verbatim>\<open>math.Pow(stack[i-2], stack[i-1])\<close>\<close>
  "op_math2 lib st i = (case operand st (i - 2) of None \<Rightarrow> Panic | Some x \<Rightarrow>
     (case operand st (i - 1) of None \<Rightarrow> Panic | Some y \<Rightarrow>
       (case math2 lib x y of None \<Rightarrow> Panic | Some r \<Rightarrow>
          let st1 = boxed st i r in with_stack st1 (i - 2) (remove (stack st1) i 2))))"

definition op_fact :: "state \<Rightarrow> int \<Rightarrow> (state \<times> int) result" where
  \<comment> \<open>\<^verbatim>\<open>MulRange(1, a)\<close> is 1 for \<open>a < 1\<close>; \<^verbatim>\<open>SetInt\<close> rounds the product to 53 bits\<close>
  "op_fact st i = (case operand st (i - 1) of None \<Rightarrow> Panic | Some x \<Rightarrow>
     let st1 = boxed st i (fl_rat (of_nat (fact (nat (fl_Int64 x)))))
     in with_stack st1 (i - 1) (remove (stack st1) i 1))"

definition op_mode :: "string \<Rightarrow> state \<Rightarrow> int \<Rightarrow> (state \<times> int) result" where
  "op_mode w st i = (let st1 = st\<lparr>Mode := w\<rparr>
     in with_stack st1 (i - 1) (remove (stack st1) (i + 1) 1))"

definition be_bytes :: "nat \<Rightarrow> int \<Rightarrow> 8 word list" where
  \<comment> \<open>the low \<open>n\<close> bytes of a two's-complement integer, most significant first\<close>
  "be_bytes n a = map (\<lambda>k. word_of_int (a div 2 ^ (8 * k))) (rev [0..<n])"

definition op_hn :: "nat \<Rightarrow> state \<Rightarrow> int \<Rightarrow> (state \<times> int) result" where
  \<comment> \<open>\<^verbatim>\<open>hnl\<close> writes the \<^verbatim>\<open>int64\<close> (8 bytes), \<^verbatim>\<open>hns\<close> its conversion to \<^verbatim>\<open>int32\<close> (4 bytes)\<close>
  "op_hn n st i = (case idx (stack st) (i - 1) of None \<Rightarrow> Panic | Some c \<Rightarrow>
     (case deref st (F_f c) of None \<Rightarrow> Panic | Some x \<Rightarrow>
        let st1 = cell_upd st i
              (\<lambda>d. set_Type String (set_B (be_bytes n (fl_Int64 x)) (set_F (F_f c) d)))
        in with_stack st1 (i - 1) (remove (stack st1) i 1)))"

definition op_nh :: "state \<Rightarrow> int \<Rightarrow> (state \<times> int) result" where
  "op_nh st i = (case idx (stack st) (i - 1) of None \<Rightarrow> Panic | Some c \<Rightarrow>
     let st1 = cell_upd st i (\<lambda>d. set_Type Number c)
     in with_stack st1 (i - 1) (remove (stack st1) i 1))"

definition op_pick :: "state \<Rightarrow> int \<Rightarrow> (state \<times> int) result" where
  \<comment> \<open>the count is an index from the bottom of the stack\<close>
  "op_pick st i = (case operand st (i - 1) of None \<Rightarrow> Panic | Some x \<Rightarrow>
     (case idx (stack st) (fl_Int64 x) of None \<Rightarrow> Panic | Some c \<Rightarrow>
        let st1 = cell_upd st i (\<lambda>d. c)
        in with_stack st1 (i - 1) (remove (stack st1) i 1)))"

definition op_repeat :: "state \<Rightarrow> int \<Rightarrow> (state \<times> int) result" where
  \<comment> \<open>\<^verbatim>\<open>make([]Var, n)\<close> panics for \<open>n < 0\<close>; \<^verbatim>\<open>stack[i+2:]\<close> panics when no cell follows the
      operator\<close>
  "op_repeat st i = (case operand st (i - 1) of None \<Rightarrow> Panic | Some x \<Rightarrow>
     let n = fl_Int64 x in
     if n < 0 then Panic
     else (case idx (stack st) (i + 1) of None \<Rightarrow> Panic | Some t \<Rightarrow>
       with_stack st (i - 2)
         (splice (stack st) (nat (i - 1)) (replicate (nat n) t) (nat (i + 2)))))"

definition op_depth :: "state \<Rightarrow> int \<Rightarrow> (state \<times> int) result" where
  \<comment> \<open>\<^verbatim>\<open>big.NewFloat(float64(i))\<close>: the conversion rounds to 53 bits, to nearest even\<close>
  "op_depth st i = Ok (boxed st i (fl_rat (of_int i)), i)"

definition op_drop :: "state \<Rightarrow> int \<Rightarrow> (state \<times> int) result" where
  "op_drop st i = with_stack st (i - 1) (remove (stack st) (i + 1) 2)"

definition op_dropn :: "state \<Rightarrow> int \<Rightarrow> (state \<times> int) result" where
  \<comment> \<open>\<^verbatim>\<open>stack = remove(stack, i+1, int(n)+2); i -= int(n)\<close>: the sum and the differences
      wrap around, and a bound \<^verbatim>\<open>pos-removeN\<close> that wraps is negative\<close>
  "op_dropn st i = (case operand st (i - 1) of None \<Rightarrow> Panic | Some x \<Rightarrow>
     let n = fl_Int64 x; removeN = wrap64 (n + 2) in
     if wrap64 (i + 1 - removeN) < 0 then Panic
     else with_stack st (wrap64 (i - n)) (remove (stack st) (i + 1) removeN))"

definition op_dup :: "state \<Rightarrow> int \<Rightarrow> (state \<times> int) result" where
  "op_dup st i = (case idx (stack st) (i - 1) of None \<Rightarrow> Panic | Some c \<Rightarrow>
     Ok (cell_upd st i (\<lambda>d. c), i))"

definition op_dupn :: "state \<Rightarrow> int \<Rightarrow> (state \<times> int) result" where
  \<comment> \<open>\<^verbatim>\<open>tmpS := stack[i-2-int(n) : i-2]; rest := stack[i+1:];
      stack = append(stack[:i-2], tmpS...); stack = append(stack, rest...); i -= 2\<close>\<close>
  "op_dupn st i = (case operand st (i - 1) of None \<Rightarrow> Panic | Some x \<Rightarrow>
     let n = fl_Int64 x; lo = wrap64 (i - 2 - n); hi = i - 2 in
     if lo < 0 \<or> hi < lo then Panic
     else with_stack st (i - 2)
       (splice (stack st) (nat hi) (take (nat (hi - lo)) (drop (nat lo) (stack st)))
          (nat (i + 1))))"

definition op_roll :: "state \<Rightarrow> int \<Rightarrow> (state \<times> int) result" where
  \<comment> \<open>the \<open>n\<close> cells below the count go to the bottom in reverse order; the new stack is
      built in a new array\<close>
  "op_roll st i = (case operand st (i - 1) of None \<Rightarrow> Panic | Some x \<Rightarrow>
     let s = stack st; n = trunc_rem (fl_Int64 x) (int (length s)) in
     if n < 0 \<or> i - n - 1 < 0 then Panic
     else Ok (st\<lparr>stack := rev (take (nat n) (drop (nat (i - 1 - n)) s))
                  @ take (nat (i - n - 1)) s @ drop (nat (i + 1)) s\<rparr>, i - 1))"

definition op_rolld :: "state \<Rightarrow> int \<Rightarrow> (state \<times> int) result" where
  \<comment> \<open>\<^verbatim>\<open>tmpS := make([]Var, n-1)\<close> panics for \<open>n \<le> 0\<close>, and for \<open>n \<ge> 1\<close> the loop
      \<^verbatim>\<open>for j := 0; int64(j) < n; j++ { tmpS[j] = stack[int(n)+j] }\<close> writes \<^verbatim>\<open>tmpS[n-1]\<close>,
      outside its length\<close>
  "op_rolld st i = Panic"

definition op_stack :: "state \<Rightarrow> int \<Rightarrow> (state \<times> int) result" where
  \<comment> \<open>the trace under \<^verbatim>\<open>if debug\<close> reads \<^verbatim>\<open>stack[i-1]\<close>\<close>
  "op_stack st i = (if debug st \<and> i = 0 then Panic
     else Ok (st\<lparr>Vertical := \<not> Vertical st\<rparr>, i))"

definition op_swap :: "state \<Rightarrow> int \<Rightarrow> (state \<times> int) result" where
  \<comment> \<open>no \<^verbatim>\<open>i -= 1\<close> here: the cell that moves into place \<open>i\<close> is skipped\<close>
  "op_swap st i = (case idx (stack st) (i - 2) of None \<Rightarrow> Panic | Some a \<Rightarrow>
     (case idx (stack st) (i - 1) of None \<Rightarrow> Panic | Some b \<Rightarrow>
        let st1 = st\<lparr>stack := (stack st)[nat (i - 2) := b, nat (i - 1) := a]\<rparr>
        in with_stack st1 i (remove (stack st1) (i + 1) 1)))"

definition op_macro :: "state \<Rightarrow> int \<Rightarrow> (state \<times> int) result" where
  \<comment> \<open>the body is the slice \<^verbatim>\<open>stack[i+2:]\<close>, here the list of its cells at this moment; the
      stack is cut to \<^verbatim>\<open>stack[:i]\<close> and \<^verbatim>\<open>i += len(stack) - i\<close> leaves \<open>i\<close> at the new length\<close>
  "op_macro st i = (let s = stack st in
     if debug st \<and> i = 0 then Panic
     else if int (length s) < i + 2 then Panic
     else let name = V_f (s ! nat (i + 1));
              c = set_V name (set_Type Code (set_Code (drop (nat (i + 2)) s) (s ! nat i)))
          in (case vars st of None \<Rightarrow> Panic
              | Some m \<Rightarrow> Ok (st\<lparr>stack := take (nat i) s, vars := Some (m(name \<mapsto> c)),
                                registered := (registered st)(name \<mapsto> ''x'')\<rparr>, i)))"

definition op_debug :: "state \<Rightarrow> int \<Rightarrow> (state \<times> int) result" where
  \<comment> \<open>the result of \<^verbatim>\<open>remove(stack, i+1, 1)\<close> is dropped: the cells move down inside the
      array, the slice keeps its length and its last cell is there twice\<close>
  "op_debug st i = Ok (st\<lparr>debug := \<not> debug st, out := out st @ [TogglingDebug],
       stack := take (nat i) (stack st) @ drop (nat (i + 1)) (stack st) @ [last (stack st)]\<rparr>,
     i - 1)"

definition op_default :: "string \<Rightarrow> state \<Rightarrow> int \<Rightarrow> (state \<times> int) result" where
  \<comment> \<open>a keyword without a case of its own: the cell is replaced by the body bound to the
      name in the variable table (no body when there is none)\<close>
  "op_default w st i =
    (let body = (case vlookup (vars st) w of None \<Rightarrow> [] | Some v \<Rightarrow> Code_f v) in
     if i \<noteq> 0 then with_stack st (i - 1) (splice (stack st) (nat i) body (nat (i + 1)))
     else Ok (st\<lparr>stack := body @ drop 1 (stack st)\<rparr>, i - 1))"

definition keyword :: "golib \<Rightarrow> state \<Rightarrow> int \<Rightarrow> nat \<Rightarrow> string \<Rightarrow> (state \<times> int) result" where
  \<comment> \<open>the \<^verbatim>\<open>switch stack[i].V\<close>, in the order of the source\<close>
  "keyword lib st i p w =
    (if w = ''debug'' then op_debug st i
     else if w = ''+'' \<or> w = ''-'' \<or> w = ''*'' \<or> w = ''/'' then op_binary (arith w) st i p
     else if w = ''cla'' then Ok (st\<lparr>stack := [], vars := Some Map.empty\<rparr>, 0)
     else if w = ''clr'' then Ok (st\<lparr>stack := []\<rparr>, 0)
     else if w = ''clv'' then Ok (st\<lparr>vars := Some Map.empty\<rparr>, i)
     else if w = ''!'' then op_inplace (\<lambda>x. Some (fl_flip x)) st i
     else if w = ''%'' then op_binary (int_arith w) st i p
     else if w = ''++'' then
       op_inplace (\<lambda>x. fl_add x (Finite False 1)) (NewFloat st (Finite False 1)) i
     else if w = ''--'' then
       op_inplace (\<lambda>x. fl_sub x (Finite False 1)) (NewFloat st (Finite False 1)) i
     else if w = ''&'' \<or> w = ''|'' \<or> w = ''^'' then op_binary (int_arith w) st i p
     else if w = ''~'' then op_not st i p
     else if w = ''<<'' \<or> w = ''>>'' then op_binary (int_arith w) st i p
     else if w = ''!='' \<or> w = ''=='' \<or> w = ''<'' \<or> w = ''<='' \<or> w = ''>'' \<or> w = ''>=''
       then op_compare w st i
     else if w = ''&&'' \<or> w = ''||'' \<or> w = ''^^'' then op_bool w st i
     else if w = ''acos'' \<or> w = ''asin'' \<or> w = ''atan'' \<or> w = ''cos'' \<or> w = ''cosh''
          \<or> w = ''sin'' \<or> w = ''sinh'' \<or> w = ''tanh'' then op_math1 lib w st i
     else if w = ''hex'' \<or> w = ''dec'' \<or> w = ''bin'' \<or> w = ''oct'' then op_mode w st i
     else if w = ''e'' \<or> w = ''pi'' then Ok (boxed st i (math_const lib w), i)
     else if w = ''rand'' then
       Ok (boxed (st\<lparr>nrand := Suc (nrand st)\<rparr>) i (rand_float lib (nrand st)), i)
     else if w = ''pow'' \<or> w = ''**'' \<or> w = ''exp'' then op_math2 lib st i
     else if w = ''fact'' then op_fact st i
     else if w = ''sqrt'' \<or> w = ''ln'' \<or> w = ''log'' then op_math1 lib w st i
     else if w = ''hnl'' then op_hn 8 st i
     else if w = ''hns'' then op_hn 4 st i
     else if w = ''nhl'' \<or> w = ''nhs'' then op_nh st i
     else if w = ''pick'' then op_pick st i
     else if w = ''repeat'' then op_repeat st i
     else if w = ''depth'' then op_depth st i
     else if w = ''drop'' then op_drop st i
     else if w = ''dropn'' then op_dropn st i
     else if w = ''dup'' then op_dup st i
     else if w = ''dupn'' then op_dupn st i
     else if w = ''roll'' then op_roll st i
     else if w = ''rolld'' then op_rolld st i
     else if w = ''stack'' then op_stack st i
     else if w = ''swap'' then op_swap st i
     else if w = ''macro'' then op_macro st i
     else if w = ''help'' then Ok (st\<lparr>out := out st @ [Usage]\<rparr>, i)
     else if w = ''exit'' then Ok (st\<lparr>Exit := True\<rparr>, int (length (stack st)))
     else op_default w st i)"

section \<open>\<^verbatim>\<open>Eval\<close>\<close>

definition reduce_cell :: "golib \<Rightarrow> state \<Rightarrow> int \<Rightarrow> (state \<times> int) result" where
  \<comment> \<open>the body of the loop, on the cell at the cursor \<open>i\<close>\<close>
  "reduce_cell lib st i = (case idx (stack st) i of None \<Rightarrow> Panic | Some c \<Rightarrow>
     (case Type_f c of
        Number \<Rightarrow> Ok (st, i)
      | Variable \<Rightarrow>
          (case vlookup (vars st) (V_f c) of
             Some v \<Rightarrow> Ok (st\<lparr>stack := (stack st)[nat i := v]\<rparr>, i - 1)
           | None \<Rightarrow> Ok (st\<lparr>stack := (stack st)[nat i := zeroVar],
                            out := out st @ [NoSuchVariable]\<rparr>, i))
      | Code \<Rightarrow>
          if isKeyword st (V_f c)
          then keyword lib
                 (cell_upd (NewFloat st (Finite False 0)) i (set_F (Some (length (heap st)))))
                 i (length (heap st)) (V_f c)
          else (case vlookup (vars st) (V_f c) of
                  Some v \<Rightarrow> Ok (st\<lparr>stack := (stack st)[nat i := v]\<rparr>, i - 1)
                | None \<Rightarrow> Fatal (V_f c))
      | Assignment \<Rightarrow>
          (case idx (stack st) (i - 1) of None \<Rightarrow> Panic | Some v \<Rightarrow>
            (case vars st of None \<Rightarrow> Panic | Some m \<Rightarrow>
               let st1 = st\<lparr>vars := Some (m(V_f c \<mapsto> v))\<rparr>
               in with_stack st1 i (remove (stack st1) (i + 1) 2)))
      | String \<Rightarrow> Ok (st, i)))"

text \<open>
  The loop \<^verbatim>\<open>for i := ip; i < len(stack); i++\<close> need not end (a name bound to a cell
  that names it again is looked up for ever), so it takes fuel: \<open>None\<close> says that the
  fuel ran out.  The \<^verbatim>\<open>defer\<close> in the loop body registers one handler per cell, and all
  of them run when \<^verbatim>\<open>Eval\<close> is left, not when the cell is done.  A panic therefore ends
  the loop: the handler of the cell at hand prints its message, and \<^verbatim>\<open>Eval\<close>, whose
  results have no names, returns their zero values: the \<^verbatim>\<open>nil\<close> slice, the \<^verbatim>\<open>nil\<close> map
  and 0.  \<open>Recovered\<close> carries that state (the globals as they were when the cell was
  entered).  \<^verbatim>\<open>log.Fatal\<close> ends the process.  With a negative \<^verbatim>\<open>ip\<close> the read in the
  only handler panics again and the panic leaves \<^verbatim>\<open>Eval\<close>.
\<close>

datatype outcome =
    Returned state nat
  | Recovered state
  | LogFatal string
  | Crashed
  | Unknown

fun Eval_loop :: "nat \<Rightarrow> golib \<Rightarrow> state \<Rightarrow> int \<Rightarrow> outcome option" where
  "Eval_loop 0 lib st i =
     (if i < int (length (stack st)) then None
      else Some (Returned st (length (stack st))))"
| "Eval_loop (Suc n) lib st i =
     (if i < int (length (stack st)) then
        (case reduce_cell lib st i of
           Ok (st', i') \<Rightarrow> Eval_loop n lib st' (i' + 1)
         | Panic \<Rightarrow> Some (Recovered (st\<lparr>stack := [], vars := None,
                            out := out st @ [RecoveredIn (stack st ! nat i)]\<rparr>))
         | Fatal m \<Rightarrow> Some (LogFatal m)
         | CapDependent \<Rightarrow> Some Unknown)
      else Some (Returned st (length (stack st))))"

definition Eval :: "nat \<Rightarrow> golib \<Rightarrow> state \<Rightarrow> int \<Rightarrow> outcome option" where
  \<comment> \<open>\<^verbatim>\<open>Eval(stack, vars, ip)\<close>, the stack and the table being those of the state\<close>
  "Eval n lib st ip = (if ip < 0 then Some Crashed else Eval_loop n lib st ip)"

section \<open>One line of input\<close>

definition main_line :: "nat \<Rightarrow> golib \<Rightarrow> state \<Rightarrow> int \<Rightarrow> string list \<Rightarrow> outcome option" where
  \<comment> \<open>the body of the read loop of \<^verbatim>\<open>main\<close> up to the call of \<^verbatim>\<open>Eval\<close>, on the tokens
      \<^verbatim>\<open>blobs\<close> of the line; copying an entry into the \<^verbatim>\<open>nil\<close> map panics outside \<^verbatim>\<open>Eval\<close>\<close>
  "main_line n lib st fp blobs = (case Parse lib st blobs of (stackR, varsR, hp) \<Rightarrow>
     if varsR \<noteq> [] \<and> vars st = None then Some Crashed
     else Eval n lib
            (st\<lparr>stack := stack st @ stackR,
                vars := map_option (\<lambda>m. m ++ map_of (rev varsR)) (vars st),
                heap := hp\<rparr>) fp)"

definition init_state :: state where
  \<comment> \<open>the globals as initialised, with the empty stack and table of \<^verbatim>\<open>main\<close>\<close>
  "init_state = \<lparr>stack = [], vars = Some Map.empty,
     heap = [Finite False 0, Finite False 1], registered = Map.empty,
     debug = False, Mode = ''dec'', Vertical = False, Exit = False, nrand = 0, out = []\<rparr>"

section \<open>A library instance for the examples\<close>

text \<open>
  The examples below need the library parameters at a few tokens only.  This instance
  knows the unsigned decimal integers of at most 38 digits: \<^verbatim>\<open>fmt.Sscanf\<close> with \<^verbatim>\<open>%f\<close>
  reads such a token (it fits a \<^verbatim>\<open>float32\<close>), \<^verbatim>\<open>%i\<close> is no verb of \<^verbatim>\<open>fmt\<close> and always
  fails, and \<^verbatim>\<open>big.Float.Parse\<close> in base 10 yields the value of the digits rounded to 53
  bits.  It agrees with Go's library on every token of the examples: on these integers,
  and on the tokens that start with none of a digit, a sign, a point and the letters of
  \<^verbatim>\<open>Inf\<close> and \<^verbatim>\<open>NaN\<close>, which \<^verbatim>\<open>Sscanf\<close> rejects, as it rejects \<^verbatim>\<open>0x1F\<close> (a hexadecimal
  mantissa without exponent).  The routines of \<^verbatim>\<open>math\<close> are left unspecified and no
  example reaches them.
\<close>

definition is_digits :: "string \<Rightarrow> bool" where
  "is_digits s = (s \<noteq> [] \<and> length s \<le> 38 \<and> list_all (\<lambda>c. c \<in> set ''0123456789'') s)"

definition dec_value :: "string \<Rightarrow> nat" where
  "dec_value s = foldl (\<lambda>a c. 10 * a + (of_char c - 48)) 0 s"

definition decimal_lib :: golib where
  "decimal_lib = \<lparr>sscanf_f = is_digits, sscanf_i = (\<lambda>s. False),
     parse_float = (\<lambda>s b. if b = 10 \<and> is_digits s
                            then Some (fl_rat (of_nat (dec_value s))) else None),
     math1 = undefined, math2 = undefined, math_const = undefined,
     rand_float = undefined\<rparr>"

definition session :: "string list list \<Rightarrow> (state \<times> nat) option" where
  \<comment> \<open>the read loop on the given lines from the initial state, each line with fuel 100:
      the state and cursor that the next line starts from (after a recovered panic the
      zero values that \<^verbatim>\<open>Eval\<close> returned); no line is read once \<^verbatim>\<open>Exit\<close> is set;
      \<open>None\<close> when a line does not return\<close>
  "session ls = foldl (\<lambda>acc blobs. case acc of None \<Rightarrow> None
       | Some (st, fp) \<Rightarrow>
           if Exit st then Some (st, fp)
           else (case main_line 100 decimal_lib st (int fp) blobs of
              Some (Returned st' fp') \<Rightarrow> Some (st', fp')
            | Some (Recovered st') \<Rightarrow> Some (st', 0)
            | _ \<Rightarrow> None))
     (Some (init_state, 0)) ls"

text \<open>
  The cells that \<^verbatim>\<open>Parse\<close> builds for a number at address \<open>p\<close> and for a keyword, and
  the initial state with a given stack and given numbers after \<^verbatim>\<open>Zero\<close> and \<^verbatim>\<open>One\<close>.
\<close>

definition num :: "nat \<Rightarrow> Var" where
  "num p = Var Number [] (Some p) [] []"

definition code :: "string \<Rightarrow> Var" where
  "code w = Var Code w (Some Zero_p) [] []"

definition example :: "Var list \<Rightarrow> bigfloat list \<Rightarrow> state" where
  "example s h = init_state\<lparr>stack := s, heap := heap init_state @ h\<rparr>"

text \<open>
  What the specification says of the four arithmetic operators, and what it means for a
  number of the heap to hold a value.  \<open>final\<close> reads the stack and the cursor off the
  result of a session.
\<close>

definition spec_arith :: "string \<Rightarrow> rat \<Rightarrow> rat \<Rightarrow> rat" where
  "spec_arith w a b = (if w = ''+'' then a + b else if w = ''-'' then a - b
     else if w = ''*'' then a * b else a / b)"

definition is_value :: "bigfloat \<Rightarrow> rat \<Rightarrow> bool" where
  "is_value r v = (case r of Finite n m \<Rightarrow> 0 \<le> m \<and> signed n m = v | Infinite n \<Rightarrow> False)"

definition final :: "(state \<times> nat) option \<Rightarrow> (Var list \<times> nat) option" where
  "final r = (case r of None \<Rightarrow> None | Some (st, fp) \<Rightarrow> Some (stack st, fp))"

section \<open>Rounding is exact on the integers up to \<open>2 ^ 53\<close>\<close>

lemma bit_length_1: "bit_length 1 = 1"
  by (simp add: bit_length.simps [of 1] bit_length.simps [of 0])

lemma bit_length_pos: "0 < n \<Longrightarrow> 0 < bit_length n"
  by (subst bit_length.simps) simp

lemma bit_length_bounds:
  "0 < n \<Longrightarrow> 2 ^ (bit_length n - 1) \<le> n \<and> n < 2 ^ bit_length n"
proof (induction n rule: bit_length.induct)
  case (1 n)
  show ?case
  proof (cases "n div 2 \<le> 0")
    case True
    with "1.prems" have "n = 1" by presburger
    then show ?thesis by (simp add: bit_length_1)
  next
    case False
    then have pos: "0 < n div 2" by simp
    from "1.IH" [OF _ pos] "1.prems"
    have ih: "2 ^ (bit_length (n div 2) - 1) \<le> n div 2" "n div 2 < 2 ^ bit_length (n div 2)"
      by auto
    have bl: "bit_length n = Suc (bit_length (n div 2))"
      using "1.prems" by (subst bit_length.simps) simp
    have bpos: "0 < bit_length (n div 2)"
      using pos by (rule bit_length_pos)
    have "(2::int) ^ (bit_length n - 1) = 2 * 2 ^ (bit_length (n div 2) - 1)"
      using bl bpos by (cases "bit_length (n div 2)") simp_all
    also have "\<dots> \<le> 2 * (n div 2)" using ih(1) by simp
    also have "\<dots> \<le> n" by presburger
    finally have lo: "2 ^ (bit_length n - 1) \<le> n" .
    have "n < 2 * (n div 2) + 2" by presburger
    also have "\<dots> \<le> 2 * 2 ^ bit_length (n div 2)" using ih(2) by simp
    finally have hi: "n < 2 ^ bit_length n" using bl by simp
    from lo hi show ?thesis ..
  qed
qed

lemma fl_exp_of_int:
  assumes "0 < a"
  shows "fl_exp (of_int a) = int (bit_length a)"
proof -
  from bit_length_bounds [OF assms]
  have lo: "2 ^ (bit_length a - 1) \<le> a" and hi: "a < 2 ^ bit_length a" by auto
  have bpos: "0 < bit_length a" using assms by (rule bit_length_pos)
  have "(of_int (2 ^ (bit_length a - 1)) :: rat) \<le> of_int a"
    using lo by (simp only: of_int_le_iff)
  then have "(2::rat) ^ (bit_length a - 1) \<le> of_int a" by simp
  then have "pow2 (int (bit_length a) - 1) \<le> of_int a"
    using bpos by (simp add: pow2_def nat_diff_distrib')
  then show ?thesis
    by (simp add: fl_exp_def bit_length_1)
qed

lemma round_half_even_int: "round_half_even (of_int k) = k"
  by (simp add: round_half_even_def)

lemma fl_round_of_int:
  assumes "0 < a" and "a \<le> 2 ^ 53"
  shows "fl_round neg (of_int a) = Finite neg (of_int a)"
proof -
  let ?L = "bit_length a"
  from bit_length_bounds [OF assms(1)]
  have lo: "2 ^ (?L - 1) \<le> a" and hi: "a < 2 ^ ?L" by auto
  have bpos: "0 < ?L" using assms(1) by (rule bit_length_pos)
  have "(2::int) ^ (?L - 1) \<le> 2 ^ 53" using lo assms(2) by linarith
  then have "?L - 1 \<le> 53" by (rule power_le_imp_le_exp [rotated]) simp
  then have L54: "?L \<le> 54" by simp
  have e: "fl_exp (of_int a) = int ?L" by (rule fl_exp_of_int [OF assms(1)])
  show ?thesis
  proof (cases "?L \<le> 53")
    case True
    then have ulp: "pow2 (int ?L - 53) = 1 / 2 ^ (53 - ?L)"
      by (cases "?L = 53") (auto simp: pow2_def nat_diff_distrib')
    have "of_int a / pow2 (int ?L - 53) = (of_int (a * 2 ^ (53 - ?L)) :: rat)"
      by (simp add: ulp)
    then have M: "round_half_even (of_int a / pow2 (int ?L - 53)) = a * 2 ^ (53 - ?L)"
      by (simp only: round_half_even_int)
    have val: "of_int (a * 2 ^ (53 - ?L)) * pow2 (int ?L - 53) = (of_int a :: rat)"
      by (simp add: ulp)
    have "a * 2 ^ (53 - ?L) < 2 ^ ?L * 2 ^ (53 - ?L)"
      using hi by simp
    also have "\<dots> = 2 ^ 53" using True by (simp add: power_add [symmetric])
    finally have lt: "a * 2 ^ (53 - ?L) \<noteq> 2 ^ 53" by simp
    have rng: "\<not> int ?L < MinExp" "\<not> MaxExp < int ?L"
      using True by (simp_all add: MinExp_def MaxExp_def)
    show ?thesis
      unfolding fl_round_def Let_def e M val using rng lt by simp
  next
    case False
    with L54 have L: "?L = 54" by simp
    with lo assms(2) have a: "a = 2 ^ 53" by simp
    have e54: "fl_exp (of_int a) = 54" using e L by simp
    show ?thesis
      unfolding fl_round_def Let_def e54
      by (simp add: a pow2_def round_half_even_def MinExp_def MaxExp_def)
  qed
qed

lemma fl_rat_of_int:
  assumes "\<bar>k\<bar> \<le> 2 ^ 53"
  shows "fl_rat (of_int k) = Finite (k < 0) (of_int \<bar>k\<bar>)"
proof (cases "k = 0")
  case True
  then show ?thesis by (simp add: fl_rat_def)
next
  case False
  then have pos: "0 < \<bar>k\<bar>" by simp
  have "fl_round (k < 0) (of_int \<bar>k\<bar>) = Finite (k < 0) (of_int \<bar>k\<bar>)"
    by (rule fl_round_of_int [OF pos assms])
  then show ?thesis using False by (simp add: fl_rat_def)
qed

lemma fl_rat_numeral:
  "numeral k \<le> (2::int) ^ 53 \<Longrightarrow> fl_rat (numeral k) = Finite False (numeral k)"
  using fl_rat_of_int [of "numeral k"] by simp

section \<open>The loop\<close>

lemma Eval_loop_done:
  "int (length (stack st)) \<le> i \<Longrightarrow>
     Eval_loop n lib st i = Some (Returned st (length (stack st)))"
  by (cases n) simp_all

lemma Eval_loop_cursor:
  "Eval_loop n lib st i = Some (Returned st' c) \<Longrightarrow> c = length (stack st')"
proof (induction n arbitrary: st i)
  case 0
  then show ?case by (auto split: if_splits)
next
  case (Suc n)
  show ?case
  proof (cases "i < int (length (stack st))")
    case False
    with Suc.prems show ?thesis by auto
  next
    case True
    with Suc.prems Suc.IH show ?thesis
      by (auto split: result.splits prod.splits)
  qed
qed

lemma isKeyword_static: "map_of keyWords w \<noteq> None \<Longrightarrow> isKeyword st w"
  by (simp add: isKeyword_def)

lemmas eval_defs = Eval_def reduce_cell_def idx_def isKeyword_def keyWords_def keyword_def
  operand_def deref_def cell_upd_def store_def NewFloat_def with_stack_def remove_def
  set_Type_def set_F_def example_def init_state_def num_def code_def Zero_p_def One_p_def

section \<open>The four arithmetic operators\<close>

lemma fl_flip_round: "fl_flip (fl_round n m) = fl_round (\<not> n) m"
  by (auto simp: fl_round_def fl_flip_def Let_def)

lemma fl_rat_pos: "0 < m \<Longrightarrow> fl_rat m = fl_round False m"
  by (simp add: fl_rat_def)

lemma fl_rat_neg: "0 < m \<Longrightarrow> fl_rat (- m) = fl_round True m"
  by (simp add: fl_rat_def)

lemma fl_rat_signed: "0 < m \<Longrightarrow> fl_rat (signed n m) = fl_round n m"
  by (simp add: fl_rat_pos fl_rat_neg signed_def)

lemma fl_rat_mult:
  assumes "0 < a" and "0 < b"
  shows "fl_rat (signed na a * signed nb b) = fl_round (na \<noteq> nb) (a * b)"
proof -
  have p: "0 < a * b" using assms by simp
  show ?thesis
    using fl_rat_pos [OF p] fl_rat_neg [OF p] by (cases na; cases nb) (simp_all add: signed_def)
qed

lemma fl_rat_div:
  assumes "0 < a" and "0 < b"
  shows "fl_rat (signed na a / signed nb b) = fl_round (na \<noteq> nb) (a / b)"
proof -
  have p: "0 < a / b" using assms by simp
  show ?thesis
    using fl_rat_pos [OF p] fl_rat_neg [OF p] by (cases na; cases nb) (simp_all add: signed_def)
qed

lemma arith_finite:
  assumes w: "w = ''+'' \<or> w = ''-'' \<or> w = ''*'' \<or> w = ''/''"
    and a: "0 \<le> ma" and b: "0 \<le> mb" and z: "w = ''/'' \<Longrightarrow> mb \<noteq> 0"
  shows "\<exists>r. arith w (Finite na ma) (Finite nb mb) = Some r
      \<and> (spec_arith w (signed na ma) (signed nb mb) \<noteq> 0
           \<longrightarrow> r = fl_rat (spec_arith w (signed na ma) (signed nb mb)))
      \<and> (spec_arith w (signed na ma) (signed nb mb) = 0 \<longrightarrow> (\<exists>n. r = Finite n 0))"
proof -
  consider (add) "w = ''+''" | (sub) "w = ''-''" | (mul) "w = ''*''" | (quo) "w = ''/''"
    using w by blast
  then show ?thesis
  proof cases
    case add
    show ?thesis
    proof (cases "ma = 0 \<or> mb = 0")
      case False
      then show ?thesis
        by (auto simp: add arith_def spec_arith_def fl_add_def fl_rat_def)
    next
      case True
      with a b show ?thesis
        by (auto simp: add arith_def spec_arith_def fl_add_def fl_set_def fl_rat_pos
            fl_rat_neg signed_def)
    qed
  next
    case sub
    show ?thesis
    proof (cases "ma = 0 \<or> mb = 0")
      case False
      then show ?thesis
        by (auto simp: sub arith_def spec_arith_def fl_sub_def fl_rat_def)
    next
      case True
      with a b show ?thesis
        by (auto simp: sub arith_def spec_arith_def fl_sub_def fl_set_def fl_flip_round
            fl_rat_pos fl_rat_neg signed_def)
    qed
  next
    case mul
    show ?thesis
    proof (cases "ma = 0 \<or> mb = 0")
      case False
      with a b have "0 < ma" "0 < mb" by auto
      from fl_rat_mult [OF this] False show ?thesis
        by (auto simp: mul arith_def spec_arith_def fl_mul_def signed_def)
    next
      case True
      then show ?thesis
        by (auto simp: mul arith_def spec_arith_def fl_mul_def signed_def)
    qed
  next
    case quo
    with z have nz: "mb \<noteq> 0" by simp
    show ?thesis
    proof (cases "ma = 0")
      case False
      with a b nz have "0 < ma" "0 < mb" by auto
      from fl_rat_div [OF this] False nz show ?thesis
        by (auto simp: quo arith_def spec_arith_def fl_quo_def signed_def)
    next
      case True
      with nz show ?thesis
        by (auto simp: quo arith_def spec_arith_def fl_quo_def signed_def)
    qed
  qed
qed

lemma is_value_exact:
  assumes "v \<in> \<int>" and "\<bar>v\<bar> \<le> 2 ^ 53"
  shows "is_value (fl_rat v) v"
proof -
  from assms(1) obtain k where k: "v = of_int k" by (auto elim: Ints_cases)
  with assms(2) have "\<bar>of_int k :: rat\<bar> \<le> of_int (2 ^ 53)" by simp
  then have "\<bar>k\<bar> \<le> 2 ^ 53" by (simp only: of_int_abs [symmetric] of_int_le_iff)
  from fl_rat_of_int [OF this] show ?thesis
    by (auto simp: k is_value_def signed_def)
qed

lemma deref_grow:
  "deref st p = Some x \<Longrightarrow> deref (st\<lparr>heap := heap st @ hs, stack := s\<rparr>) p = Some x"
  by (auto simp: deref_def nth_append split: option.splits if_splits)

lemma three_cells:
  "(pre @ a # b # c # post) ! length pre = a"
  "(pre @ a # b # c # post) ! Suc (length pre) = b"
  "(pre @ a # b # c # post) ! Suc (Suc (length pre)) = c"
  "(pre @ a # b # c # post)[Suc (Suc (length pre)) := d] = pre @ a # b # d # post"
  "take (length pre) (pre @ a # b # c # post) = pre"
  "drop (Suc (Suc (length pre))) (pre @ a # b # c # post) = c # post"
  by (simp_all add: nth_append list_update_append)

lemma round_tie: "fl_rat 9007199254740993 = Finite False 9007199254740992"
  by code_simp

section \<open>Panics and comparisons\<close>

text \<open>
  A panic in any cell is the end of \<^verbatim>\<open>Eval\<close>.  A comparison removes its two operands and
  leaves the pointer \<^verbatim>\<open>One\<close> or \<^verbatim>\<open>Zero\<close> in the operator cell; the receiver of \<^verbatim>\<open>Cmp\<close> is
  the upper operand, so that \<^verbatim>\<open>a b <\<close> is true when \<open>b < a\<close>.
\<close>

lemma panic_ends_Eval:
  "0 \<le> i \<Longrightarrow> i < int (length (stack st)) \<Longrightarrow> reduce_cell lib st i = Panic \<Longrightarrow>
   Eval (Suc n) lib st i = Some (Recovered (st\<lparr>stack := [], vars := None,
      out := out st @ [RecoveredIn (stack st ! nat i)]\<rparr>))"
  by (simp add: Eval_def)

lemma cmp_table_range: "cmp_table w c = Zero_p \<or> cmp_table w c = One_p"
  by (simp add: cmp_table_def)

lemma comparison_reduces:
  assumes w: "w = ''!='' \<or> w = ''=='' \<or> w = ''<'' \<or> w = ''<='' \<or> w = ''>'' \<or> w = ''>=''"
    and stk: "stack st = pre @ [ca, cb, cw] @ post"
    and cw: "Type_f cw = Code" "V_f cw = w"
    and a: "deref st (F_f ca) = Some x"
    and b: "deref st (F_f cb) = Some y"
  shows "reduce_cell lib st (int (length pre) + 2) =
           Ok (st\<lparr>stack := pre @ [Var Number w (Some (cmp_table w (fl_cmp y x)))
                                     (B_f cw) (Code_f cw)] @ post,
                  heap := heap st @ [Finite False 0]\<rparr>, int (length pre))"
proof -
  let ?i = "int (length pre) + 2"
  let ?p = "length (heap st)"
  have n: "nat ?i = Suc (Suc (length pre))" "nat (?i - 2) = length pre"
    "nat (?i - 1) = Suc (length pre)" "nat (1 + int (length pre)) = Suc (length pre)"
    "nat (2 + int (length pre)) = Suc (Suc (length pre))" by simp_all
  have kw: "isKeyword st w"
    using w by (elim disjE) (simp_all add: isKeyword_def keyWords_def)
  let ?st0 = "st\<lparr>heap := heap st @ [Finite False 0],
                   stack := pre @ ca # cb # set_F (Some ?p) cw # post\<rparr>"
  have e0: "cell_upd (NewFloat st (Finite False 0)) ?i (set_F (Some ?p)) = ?st0"
    by (simp add: cell_upd_def NewFloat_def stk n three_cells)
  have da: "deref ?st0 (F_f ca) = Some x" and db: "deref ?st0 (F_f cb) = Some y"
    using a b by (auto simp: deref_def nth_append split: option.splits if_splits)
  have oa: "operand ?st0 (?i - 2) = Some x" and ob: "operand ?st0 (?i - 1) = Some y"
    using da db by (simp_all add: operand_def idx_def n three_cells)
  have kwd: "keyword lib ?st0 ?i ?p w = op_compare w ?st0 ?i"
    using w by (elim disjE) (simp_all only: keyword_def, simp_all)
  have opc: "op_compare w ?st0 ?i =
      Ok (st\<lparr>stack := pre @ [Var Number w (Some (cmp_table w (fl_cmp y x)))
                                (B_f cw) (Code_f cw)] @ post,
             heap := heap st @ [Finite False 0]\<rparr>, int (length pre))"
  proof -
    have "op_compare w ?st0 ?i =
        (let st1 = cell_upd ?st0 ?i
               (\<lambda>c. set_Type Number (set_F (Some (cmp_table w (fl_cmp y x))) c))
         in with_stack st1 (?i - 2) (remove (stack st1) ?i 2))"
      by (simp only: op_compare_def oa ob option.case)
    also have "\<dots> = Ok (st\<lparr>stack := pre @ [Var Number w (Some (cmp_table w (fl_cmp y x)))
                                (B_f cw) (Code_f cw)] @ post,
             heap := heap st @ [Finite False 0]\<rparr>, int (length pre))"
      using cw
      by (simp add: Let_def with_stack_def remove_def cell_upd_def
          n three_cells set_Type_def set_F_def)
    finally show ?thesis .
  qed
  show ?thesis
    using kw cw
    by (simp add: reduce_cell_def idx_def stk n three_cells e0 [simplified] kwd opc)
qed

lemma less_than_tests_greater_than:
  "0 \<le> a \<Longrightarrow> 0 \<le> b \<Longrightarrow>
   cmp_table ''<'' (fl_cmp (Finite False b) (Finite False a)) = (if b < a then One_p else Zero_p)"
  unfolding cmp_table_def fl_cmp_def fl_ord_def fl_ucmp_def Let_def
  by (cases "a = 0"; cases "b = 0") (simp_all add: Zero_p_def One_p_def)

section \<open>The claims\<close>

text \<open>
  C10.  Whenever \<^verbatim>\<open>Eval\<close> returns from its loop (no panic, no fatal exit), whatever the
  stack, the variable table and the cursor it started from, the cursor it returns is the
  length of the stack it returns: no cell lies at or after the cursor, and \<^verbatim>\<open>main\<close>
  passes that cursor to the call for the next line.
\<close>

theorem Eval_returns_length:
  "Eval n lib st ip = Some (Returned st' c) \<Longrightarrow> c = length (stack st')"
  by (auto simp: Eval_def split: if_splits dest: Eval_loop_cursor)

theorem Eval_returns_length_witness:
  "Eval 3 decimal_lib (example [num 2, num 3, code ''+''] [Finite False 3, Finite False 4]) 0
     = Some (Returned (example [Var Number ''+'' (Some 4) [] []]
                         [Finite False 3, Finite False 4, Finite False 7]) 1)
   \<and> (1::nat) = length (stack (example [Var Number ''+'' (Some 4) [] []]
                         [Finite False 3, Finite False 4, Finite False 7]))"
proof -
  have h: "Eval 3 decimal_lib
             (example [num 2, num 3, code ''+''] [Finite False 3, Finite False 4]) 0
     = Some (Returned (example [Var Number ''+'' (Some 4) [] []]
                         [Finite False 3, Finite False 4, Finite False 7]) 1)"
    by (simp add: eval_defs eval_nat_numeral op_binary_def arith_def fl_add_def signed_def
        fl_rat_numeral)
  from h Eval_returns_length [OF h] show ?thesis by simp
qed

text \<open>
  C8.  With the cursor on a \<^verbatim>\<open>cla\<close> cell, whatever the stack below and above it, the
  variable table (the \<^verbatim>\<open>nil\<close> map included) and the position of the cursor, \<^verbatim>\<open>Eval\<close>
  returns an empty stack, an empty variable table and the cursor 0.  The cells after
  \<^verbatim>\<open>cla\<close> are dropped with the rest; the only other change is the number allocated for
  the operator cell.
\<close>

theorem cla_clears_everything:
  assumes "0 \<le> i" and "i < int (length (stack st))"
    and "Type_f (stack st ! nat i) = Code" and "V_f (stack st ! nat i) = ''cla''"
  shows "Eval (Suc n) lib st i =
           Some (Returned (st\<lparr>stack := [], vars := Some Map.empty,
                               heap := heap st @ [Finite False 0]\<rparr>) 0)"
proof -
  have kw: "isKeyword st ''cla''"
    by (rule isKeyword_static) (simp add: keyWords_def)
  have "reduce_cell lib st i =
      Ok (st\<lparr>stack := [], vars := Some Map.empty, heap := heap st @ [Finite False 0]\<rparr>, 0)"
    using assms kw
    by (simp add: reduce_cell_def idx_def keyword_def cell_upd_def NewFloat_def)
  then show ?thesis
    using assms by (simp add: Eval_def Eval_loop_done)
qed

theorem cla_clears_everything_witness:
  "Eval (Suc 0) decimal_lib
     ((example [num 2, code ''cla'', num 3] [Finite False 7, Finite False 3])
        \<lparr>vars := Some [''x'' \<mapsto> num 2]\<rparr>) 1 =
   Some (Returned ((example [num 2, code ''cla'', num 3] [Finite False 7, Finite False 3])
      \<lparr>vars := Some [''x'' \<mapsto> num 2], stack := [], vars := Some Map.empty,
        heap := [Finite False 0, Finite False 1, Finite False 7, Finite False 3,
                 Finite False 0]\<rparr>) 0)"
  using cla_clears_everything
    [of 1 "(example [num 2, code ''cla'', num 3] [Finite False 7, Finite False 3])
             \<lparr>vars := Some [''x'' \<mapsto> num 2]\<rparr>" 0 decimal_lib]
  by (simp add: example_def init_state_def code_def num_def)


text \<open>
  C9.  With the cursor on a \<^verbatim>\<open>depth\<close> cell at position \<open>i\<close>, the cell becomes a Number
  whose value is \<open>i\<close>, the position of the cursor, whatever the length of the stack; no
  other cell changes and the cursor stays, so no operand is consumed.  The value is
  \<^verbatim>\<open>float64(i)\<close>, which is \<open>i\<close> exactly up to \<open>2 ^ 53\<close>.
\<close>

theorem depth_is_cursor:
  assumes "0 \<le> i" and "i < int (length (stack st))"
    and "Type_f (stack st ! nat i) = Code" and "V_f (stack st ! nat i) = ''depth''"
  shows "reduce_cell lib st i =
           Ok (st\<lparr>stack := (stack st)[nat i :=
                      Var Number ''depth'' (Some (Suc (length (heap st))))
                        (B_f (stack st ! nat i)) (Code_f (stack st ! nat i))],
                  heap := heap st @ [Finite False 0, fl_rat (of_int i)]\<rparr>, i)
         \<and> (i \<le> 2 ^ 53 \<longrightarrow> fl_rat (of_int i) = Finite False (of_int i))"
proof -
  have kw: "isKeyword st ''depth''"
    by (rule isKeyword_static) (simp add: keyWords_def)
  have "i \<le> 2 ^ 53 \<longrightarrow> fl_rat (of_int i) = Finite False (of_int i)"
    using assms(1) fl_rat_of_int [of i] by simp
  then show ?thesis
    using assms kw
    by (simp add: reduce_cell_def idx_def keyword_def cell_upd_def NewFloat_def op_depth_def
        boxed_def set_Type_def set_F_def)
qed

theorem depth_is_cursor_witness:
  "reduce_cell decimal_lib
     (example [num 2, num 3, code ''depth'', num 4] [Finite False 8, Finite False 9, Finite False 7]) 2
   = Ok (example [num 2, num 3, Var Number ''depth'' (Some 6) [] [], num 4]
           [Finite False 8, Finite False 9, Finite False 7, Finite False 0, Finite False 2], 2)"
  using depth_is_cursor [of 2 "example [num 2, num 3, code ''depth'', num 4]
      [Finite False 8, Finite False 9, Finite False 7]" decimal_lib]
  by (simp add: example_def init_state_def num_def code_def eval_nat_numeral)

text \<open>
  C1, as amended.  Let the two cells below a \<^verbatim>\<open>+\<close>, \<^verbatim>\<open>-\<close>, \<^verbatim>\<open>*\<close> or \<^verbatim>\<open>/\<close> cell point to
  finite numbers \<open>a\<close> and \<open>b\<close> (\<open>b\<close> not zero for \<^verbatim>\<open>/\<close>).  Reducing the operator cell
  removes the two operand cells and leaves the operator cell as a Number pointing to a new
  number; the cursor ends on that cell.  The new number is the exact result \<open>a + b\<close>,
  \<open>a - b\<close>, \<open>a * b\<close> or \<open>a / b\<close> rounded to 53 bits (to nearest, ties to even), and it is
  the exact result whenever that is an integer of magnitude at most \<open>2 ^ 53\<close>.
\<close>

theorem arithmetic_rounds_to_53_bits:
  assumes w: "w = ''+'' \<or> w = ''-'' \<or> w = ''*'' \<or> w = ''/''"
    and stk: "stack st = pre @ [ca, cb, cw] @ post"
    and cw: "Type_f cw = Code" "V_f cw = w"
    and a: "deref st (F_f ca) = Some (Finite na ma)" "0 \<le> ma"
    and b: "deref st (F_f cb) = Some (Finite nb mb)" "0 \<le> mb"
    and z: "w = ''/'' \<Longrightarrow> mb \<noteq> 0"
  shows "\<exists>r. reduce_cell lib st (int (length pre) + 2) =
              Ok (st\<lparr>stack := pre @ [Var Number w (Some (length (heap st))) (B_f cw) (Code_f cw)]
                                @ post,
                     heap := heap st @ [r]\<rparr>, int (length pre))
          \<and> (spec_arith w (signed na ma) (signed nb mb) \<noteq> 0
               \<longrightarrow> r = fl_rat (spec_arith w (signed na ma) (signed nb mb)))
          \<and> (spec_arith w (signed na ma) (signed nb mb) \<in> \<int>
               \<and> \<bar>spec_arith w (signed na ma) (signed nb mb)\<bar> \<le> 2 ^ 53
               \<longrightarrow> is_value r (spec_arith w (signed na ma) (signed nb mb)))"
proof -
  let ?v = "spec_arith w (signed na ma) (signed nb mb)"
  let ?i = "int (length pre) + 2"
  let ?p = "length (heap st)"
  from arith_finite [OF w a(2) b(2) z, of na nb]
  obtain r where r: "arith w (Finite na ma) (Finite nb mb) = Some r"
    and r1: "?v \<noteq> 0 \<longrightarrow> r = fl_rat ?v" and r0: "?v = 0 \<longrightarrow> (\<exists>n. r = Finite n 0)"
    by blast
  have n: "nat ?i = Suc (Suc (length pre))" "nat (?i - 2) = length pre"
    "nat (?i - 1) = Suc (length pre)" "nat (1 + int (length pre)) = Suc (length pre)"
    "nat (2 + int (length pre)) = Suc (Suc (length pre))" by simp_all
  have kw: "isKeyword st w"
    using w by (auto intro!: isKeyword_static simp: keyWords_def)
  let ?st0 = "st\<lparr>heap := heap st @ [Finite False 0],
                   stack := pre @ ca # cb # set_F (Some ?p) cw # post\<rparr>"
  have e0: "cell_upd (NewFloat st (Finite False 0)) ?i (set_F (Some ?p)) = ?st0"
    by (simp add: cell_upd_def NewFloat_def stk n three_cells)
  have da: "deref ?st0 (F_f ca) = Some (Finite na ma)"
    and db: "deref ?st0 (F_f cb) = Some (Finite nb mb)"
    using a(1) b(1) by (auto simp: deref_def nth_append split: option.splits if_splits)
  have oa: "operand ?st0 (?i - 2) = Some (Finite na ma)"
    and ob: "operand ?st0 (?i - 1) = Some (Finite nb mb)"
    using da db by (simp_all add: operand_def idx_def n three_cells)
  have kwd: "keyword lib ?st0 ?i ?p w = op_binary (arith w) ?st0 ?i ?p"
    using w by (auto simp: keyword_def)
  have opb: "op_binary (arith w) ?st0 ?i ?p =
      Ok (st\<lparr>stack := pre @ [Var Number w (Some ?p) (B_f cw) (Code_f cw)] @ post,
             heap := heap st @ [r]\<rparr>, int (length pre))"
  proof -
    have "op_binary (arith w) ?st0 ?i ?p =
        (let st1 = cell_upd (store ?st0 ?p r) ?i (set_Type Number)
         in with_stack st1 (?i - 2) (remove (stack st1) ?i 2))"
      by (simp only: op_binary_def oa ob r option.case)
    also have "\<dots> = Ok (st\<lparr>stack := pre @ [Var Number w (Some ?p) (B_f cw) (Code_f cw)] @ post,
             heap := heap st @ [r]\<rparr>, int (length pre))"
      using cw
      by (simp add: Let_def with_stack_def remove_def cell_upd_def store_def
          n three_cells set_Type_def set_F_def)
    finally show ?thesis .
  qed
  have "reduce_cell lib st ?i =
      Ok (st\<lparr>stack := pre @ [Var Number w (Some ?p) (B_f cw) (Code_f cw)] @ post,
             heap := heap st @ [r]\<rparr>, int (length pre))"
    using kw cw
    by (simp add: reduce_cell_def idx_def stk n three_cells e0 [simplified] kwd opb)
  moreover have "?v \<in> \<int> \<and> \<bar>?v\<bar> \<le> 2 ^ 53 \<longrightarrow> is_value r ?v"
  proof (cases "?v = 0")
    case True
    with r0 show ?thesis by (auto simp: is_value_def signed_def)
  next
    case False
    with r1 show ?thesis by (auto intro: is_value_exact)
  qed
  ultimately show ?thesis using r1 by blast
qed

theorem arithmetic_rounds_to_53_bits_witness:
  "reduce_cell decimal_lib (example [num 2, num 3, code ''+''] [Finite False 3, Finite False 4]) 2
     = Ok (example [Var Number ''+'' (Some 4) [] []]
             [Finite False 3, Finite False 4, Finite False 7], 0)"
proof -
  let ?st = "example [num 2, num 3, code ''+''] [Finite False 3, Finite False 4]"
  have v: "spec_arith ''+'' (signed False 3) (signed False 4) = 7"
    by (simp add: spec_arith_def signed_def)
  from arithmetic_rounds_to_53_bits
    [of "''+''" ?st "[]" "num 2" "num 3" "code ''+''" "[]" False 3 False 4 decimal_lib]
  obtain r where
    step: "reduce_cell decimal_lib ?st 2 =
       Ok (?st\<lparr>stack := [Var Number ''+'' (Some (length (heap ?st))) [] []],
                heap := heap ?st @ [r]\<rparr>, 0)"
    and r: "r = fl_rat 7"
    by (auto simp: v example_def init_state_def num_def code_def deref_def)
  have "fl_rat 7 = Finite False 7"
    using fl_rat_numeral [of "num.Bit1 (num.Bit1 num.One)"] by simp
  with step r show ?thesis
    by (simp add: example_def init_state_def)
qed

text \<open>
  The claim C1 as stated fails: \<open>2 ^ 53\<close> and \<open>1\<close> are numbers of the program, and their
  sum comes out as \<open>2 ^ 53\<close>.
\<close>

theorem addition_is_not_exact:
  "reduce_cell decimal_lib
     (example [num 2, num 3, code ''+''] [Finite False 9007199254740992, Finite False 1]) 2
     = Ok (example [Var Number ''+'' (Some 4) [] []]
             [Finite False 9007199254740992, Finite False 1, Finite False 9007199254740992], 0)
   \<and> (9007199254740992 :: rat) \<noteq> 9007199254740992 + 1"
  by (simp add: eval_defs eval_nat_numeral op_binary_def arith_def fl_add_def signed_def round_tie)

text \<open>
  C2.  The comparisons call \<^verbatim>\<open>stack[i-1].F.Cmp(stack[i-2].F)\<close>, the operands in the
  opposite order of \<^verbatim>\<open>-\<close>, \<^verbatim>\<open>/\<close> and \<^verbatim>\<open>pow\<close>: \<^verbatim>\<open>3 4 <\<close> leaves the pointer \<^verbatim>\<open>Zero\<close>
  and \<^verbatim>\<open>4 3 <\<close> the pointer \<^verbatim>\<open>One\<close>.  And the token \<^verbatim>\<open>==\<close> never reaches the evaluator
  as an operator: \<^verbatim>\<open>Parse\<close> makes it an Assignment to the name \<^verbatim>\<open>=\<close>.
\<close>

theorem less_than_compares_backwards:
  "Eval 3 decimal_lib (example [num 2, num 3, code ''<''] [Finite False 3, Finite False 4]) 0 =
     Some (Returned (example [Var Number ''<'' (Some Zero_p) [] []]
                       [Finite False 3, Finite False 4, Finite False 0]) 1)
   \<and> Eval 3 decimal_lib (example [num 2, num 3, code ''<''] [Finite False 4, Finite False 3]) 0 =
     Some (Returned (example [Var Number ''<'' (Some One_p) [] []]
                       [Finite False 4, Finite False 3, Finite False 0]) 1)
   \<and> fst (Parse decimal_lib init_state [''3'', ''3'', ''=='']) =
       [num 2, num 3, Var Assignment ''='' (Some Zero_p) [] []]"
  by (simp add: eval_defs eval_nat_numeral op_compare_def cmp_table_def fl_cmp_def fl_ord_def
      fl_ucmp_def Parse_def Parse_token_def getBase_def decimal_lib_def is_digits_def
      dec_value_def fl_rat_numeral)

text \<open>
  C3.  \<^verbatim>\<open>Parse\<close> compares the token without its last byte with \<^verbatim>\<open>"="\<close>, where its
  comment says "if last char is =".  Whatever the library answers, \<^verbatim>\<open>x=\<close> is no
  Assignment; in the session \<^verbatim>\<open>1024 x=\<close>, \<^verbatim>\<open>x\<close> both names are unbound variables and
  the stack ends with three cells.
\<close>

theorem assignment_suffix_is_not_seen:
  "Assignment \<notin> Type_f ` set (fst (Parse lib st [''x='']))
   \<and> final (session [[''1024'', ''x=''], [''x'']]) = Some ([num 2, zeroVar, zeroVar], 3)"
proof -
  have "Assignment \<notin> Type_f ` set (fst (Parse lib st [''x='']))"
    by (simp add: Parse_def Parse_token_def Let_def split: option.splits)
  moreover have "final (session [[''1024'', ''x=''], [''x'']]) = Some ([num 2, zeroVar, zeroVar], 3)"
    by code_simp
  ultimately show ?thesis ..
qed

text \<open>
  C4.  A panic in one cell ends \<^verbatim>\<open>Eval\<close>: on \<^verbatim>\<open>+ 3 4 +\<close> the first cell panics (no
  operands), the cells after it are not reduced, and the caller gets the \<^verbatim>\<open>nil\<close> stack,
  the \<^verbatim>\<open>nil\<close> variable table and the cursor 0.
\<close>

theorem fault_aborts_the_line:
  "Eval 10 decimal_lib
     (example [code ''+'', num 2, num 3, code ''+''] [Finite False 3, Finite False 4]) 0 =
   Some (Recovered ((example [] [Finite False 3, Finite False 4])
           \<lparr>vars := None, out := [RecoveredIn (code ''+'')]\<rparr>))"
  by (simp add: eval_defs eval_nat_numeral op_binary_def)

text \<open>
  C5.  For an unbound variable the diagnostic is printed, but the cell does not stay: it
  is overwritten with the zero value of \<^verbatim>\<open>Var\<close>, a Number with a \<^verbatim>\<open>nil\<close> pointer
  (\<^verbatim>\<open>prev\<close> holds the failed lookup, not the cell).
\<close>

theorem unbound_variable_is_overwritten:
  "Eval 1 decimal_lib (example [Var Variable ''x'' (Some Zero_p) [] []] []) 0 =
     Some (Returned ((example [zeroVar] [])\<lparr>out := [NoSuchVariable]\<rparr>) 1)
   \<and> zeroVar \<noteq> Var Variable ''x'' (Some Zero_p) [] []"
  by (simp add: eval_defs eval_nat_numeral vlookup_def zeroVar_def)

text \<open>
  C6.  \<^verbatim>\<open>getBase\<close> tests \<^verbatim>\<open>s[0] == 0\<close>, the byte of value 0, so the prefix \<^verbatim>\<open>0x\<close> of
  \<^verbatim>\<open>0x1F\<close> selects no base: the result is 0 or 10 as \<^verbatim>\<open>Sscanf\<close> decides, never 16, and in
  a session the token ends as an unbound variable.
\<close>

theorem base_prefix_is_never_seen:
  "getBase lib ''0x1F'' = (if \<not> sscanf_f lib ''0x1F'' \<and> \<not> sscanf_i lib ''0x1F'' then 0 else 10)
   \<and> final (session [[''0x1F'']]) = Some ([zeroVar], 1)"
  by (simp add: getBase_def final_def session_def main_line_def Parse_def Parse_token_def
      decimal_lib_def is_digits_def eval_defs eval_nat_numeral vlookup_def zeroVar_def)

text \<open>
  C7.  \<^verbatim>\<open>dupn\<close> takes \<^verbatim>\<open>stack[i-2-n : i-2]\<close> and keeps \<^verbatim>\<open>stack[:i-2]\<close>: on
  \<^verbatim>\<open>1 2 3 2 dupn\<close> it drops the 3 below the count and leaves \<^verbatim>\<open>1 2 1 2\<close>, not
  \<^verbatim>\<open>1 2 3 2 3\<close>.
\<close>

theorem dupn_skips_a_cell:
  "Eval 6 decimal_lib
     (example [num 2, num 3, num 4, num 5, code ''dupn'']
        [Finite False 1, Finite False 2, Finite False 3, Finite False 2]) 0 =
   Some (Returned (example [num 2, num 3, num 2, num 3]
        [Finite False 1, Finite False 2, Finite False 3, Finite False 2, Finite False 0]) 4)"
  by (simp add: eval_defs eval_nat_numeral op_dupn_def fl_Int64_def wrap64_def splice_def)

end
